theory Spec2Isabelle
  imports Complex_Main "HOL-Library.AList" "HOL-Library.Multiset"
begin

section \<open>Python values shared by the models\<close>

text \<open>
  Python strings are modelled as \<open>string\<close> (lists of characters with code points below
  256). A \<open>dict\<close> keeps its keys in insertion order, so a dictionary is an association
  list with distinct keys: \<open>d[k] = v\<close> is \<open>AList.update k v d\<close> (the value is replaced
  in place when the key exists and appended otherwise), \<open>del d[k]\<close> and \<open>d.pop(k)\<close> are
  \<open>AList.delete k d\<close>, \<open>d.get(k)\<close> is \<open>map_of d k\<close>, \<open>k in d\<close> is
  \<open>k \<in> fst ` set d\<close> and \<open>d.values()\<close> is \<open>map snd d\<close>.
  Objects are modelled by value: a session or entry handed to a manager is stored as the
  record it is at the time of the call.
\<close>

definition isspace :: "char \<Rightarrow> bool" where
  \<comment> \<open>\<open>str.isspace\<close> on one character: the whitespace code points below 256.\<close>
  "isspace c = (let n = (of_char c :: nat) in
     (9 \<le> n \<and> n \<le> 13) \<or> (28 \<le> n \<and> n \<le> 32) \<or> n = 133 \<or> n = 160)"

definition strip :: "string \<Rightarrow> string" where
  \<comment> \<open>\<open>str.strip()\<close>: leading and trailing whitespace removed.\<close>
  "strip s = rev (dropWhile isspace (rev (dropWhile isspace s)))"

definition py_slice_to_neg :: "'a list \<Rightarrow> int \<Rightarrow> 'a list" where
  \<comment> \<open>The slice \<open>xs[:-m]\<close>. The stop index \<open>-m\<close> counts from the end when it is
      negative and from the start otherwise, so \<open>xs[:-0]\<close> is \<open>xs[:0]\<close>, the empty list.\<close>
  "py_slice_to_neg xs m =
     (if 0 < m then take (length xs - nat m) xs else take (nat (- m)) xs)"

datatype error = ValueError string

section \<open>Sessions (\<open>src/core/session_manager.py\<close>)\<close>

type_synonym datetime = nat
  \<comment> \<open>A reading of \<open>datetime.now()\<close>, in microseconds.\<close>

record session =
  name :: string
  host :: string
  username :: string
  password :: string
  group :: string
  tags :: "string list"
  description :: string
  last_connection :: "datetime option"
  connection_count :: int
  key_file :: string
  params :: string

text \<open>
  \<open>Session.__init__\<close>: a new session has no last connection and a connection count of 0.
  \<open>last_connection\<close> holds \<open>datetime.now().isoformat()\<close>; the model keeps the reading
  itself, of which the ISO string is a rendering.
\<close>

definition Session :: "string \<Rightarrow> string \<Rightarrow> string \<Rightarrow> string \<Rightarrow> string \<Rightarrow> string list \<Rightarrow>
    string \<Rightarrow> string \<Rightarrow> string \<Rightarrow> session" where
  "Session n h u p g ts d kf ps =
     \<lparr>name = n, host = h, username = u, password = p, group = g, tags = ts,
      description = d, last_connection = None, connection_count = 0,
      key_file = kf, params = ps\<rparr>"

text \<open>
  The state of a \<open>SessionManager\<close> together with the files it owns. \<open>sessions\<close> is the
  dictionary \<open>self.sessions\<close>. \<open>session_file\<close> is the content of \<open>sessions.json\<close>
  (\<open>None\<close> while the file does not exist): the list of session dictionaries written by
  \<open>json.dump\<close>, each of which \<open>Session.from_dict\<close> reads back as the session it was
  written from. \<open>backups\<close> is the backup directory: a backup file
  \<open>sessions_backup_YYYYMMDD_HHMMSS.json\<close> is keyed by the second its name encodes, and
  the order of these keys is the lexicographic order of the file names, which is what
  \<open>sorted\<close> uses. \<open>max_backups\<close> is the value \<open>config.get("general", "max_backups", 5)\<close>
  returns; the configuration file can hold any integer.
\<close>

record manager =
  sessions :: "(string \<times> session) list"
  session_file :: "session list option"
  backups :: "(nat \<times> session list) list"
  max_backups :: int

text \<open>
  What the environment does during one call of \<open>save_sessions\<close>: the reading of the clock
  in \<open>_create_backup\<close>, whether \<open>shutil.copy2\<close> succeeds, which backup files refuse
  \<open>unlink\<close> with a \<open>PermissionError\<close>, and whether opening the session file for writing
  succeeds.
\<close>

record io =
  now :: datetime
  copy_ok :: bool
  undeletable :: "nat \<Rightarrow> bool"
  write_ok :: bool

definition timestamp :: "datetime \<Rightarrow> nat" where
  \<comment> \<open>\<open>strftime("%Y%m%d_%H%M%S")\<close>: the reading cut to whole seconds.\<close>
  "timestamp t = t div 1000000"

definition unlink :: "io \<Rightarrow> nat \<Rightarrow> (nat \<times> session list) list \<Rightarrow> (nat \<times> session list) list" where
  \<comment> \<open>\<open>old_file.unlink()\<close> inside \<open>try ... except PermissionError: continue\<close>.\<close>
  "unlink e f bs = (if undeletable e f then bs else AList.delete f bs)"

definition create_backup :: "io \<Rightarrow> manager \<Rightarrow> manager" where
  "create_backup e m =
     (case session_file m of
        None \<Rightarrow> m
      | Some content \<Rightarrow>
          if \<not> copy_ok e then m
          else
            let bs = AList.update (timestamp (now e)) content (backups m);
                backup_files = sort (map fst bs)
            in if int (length backup_files) > max_backups m
               then m\<lparr>backups := fold (unlink e) (py_slice_to_neg backup_files (max_backups m)) bs\<rparr>
               else m\<lparr>backups := bs\<rparr>)"

definition save_sessions :: "io \<Rightarrow> manager \<Rightarrow> bool \<times> manager" where
  "save_sessions e m =
     (let m' = create_backup e m;
          session_data = map snd (sessions m')
      in if write_ok e then (True, m'\<lparr>session_file := Some session_data\<rparr>)
         else (False, m'))"

definition load_sessions :: "manager \<Rightarrow> manager" where
  \<comment> \<open>\<open>_load_sessions\<close>: every session of the file is stored under its own name.\<close>
  "load_sessions m =
     (case session_file m of
        None \<Rightarrow> m
      | Some data \<Rightarrow> m\<lparr>sessions := fold (\<lambda>s d. AList.update (name s) s d) data (sessions m)\<rparr>)"

definition init_manager :: "session list option \<Rightarrow> (nat \<times> session list) list \<Rightarrow> int \<Rightarrow> manager" where
  \<comment> \<open>\<open>SessionManager.__init__\<close> on a given session file, backup directory and configuration.\<close>
  "init_manager file bdir k =
     load_sessions \<lparr>sessions = [], session_file = file, backups = bdir, max_backups = k\<rparr>"

definition add_session :: "io \<Rightarrow> session \<Rightarrow> manager \<Rightarrow> (error + bool) \<times> manager" where
  "add_session e s m =
     (if strip (name s) = [] then (Inl (ValueError ''Session name cannot be empty''), m)
      else if name s \<in> fst ` set (sessions m)
      then (Inl (ValueError (''Session with name '' @ [CHR 39] @ name s @ [CHR 39] @ '' already exists'')), m)
      else (Inr True, snd (save_sessions e (m\<lparr>sessions := AList.update (name s) s (sessions m)\<rparr>))))"

definition update_session :: "io \<Rightarrow> session \<Rightarrow> manager \<Rightarrow> (error + bool) \<times> manager" where
  "update_session e s m =
     (if strip (name s) = [] then (Inl (ValueError ''Session name cannot be empty''), m)
      else if name s \<notin> fst ` set (sessions m)
      then (Inl (ValueError (''Session with name '' @ [CHR 39] @ name s @ [CHR 39] @ '' not found'')), m)
      else (Inr True, snd (save_sessions e (m\<lparr>sessions := AList.update (name s) s (sessions m)\<rparr>))))"

definition delete_session :: "io \<Rightarrow> string \<Rightarrow> manager \<Rightarrow> (error + bool) \<times> manager" where
  "delete_session e n m =
     (if n \<notin> fst ` set (sessions m)
      then (Inl (ValueError (''Session with name '' @ [CHR 39] @ n @ [CHR 39] @ '' not found'')), m)
      else (Inr True, snd (save_sessions e (m\<lparr>sessions := AList.delete n (sessions m)\<rparr>))))"

definition get_session :: "string \<Rightarrow> manager \<Rightarrow> session option" where
  "get_session n m = map_of (sessions m) n"

definition update_connection_stats :: "datetime \<Rightarrow> io \<Rightarrow> string \<Rightarrow> manager \<Rightarrow> manager" where
  \<comment> \<open>\<open>t\<close> is the reading of \<open>datetime.now()\<close> stored in \<open>last_connection\<close>.\<close>
  "update_connection_stats t e n m =
     (case map_of (sessions m) n of
        None \<Rightarrow> m
      | Some s \<Rightarrow>
          let s' = s\<lparr>last_connection := Some t, connection_count := connection_count s + 1\<rparr>
          in snd (save_sessions e (m\<lparr>sessions := AList.update n s' (sessions m)\<rparr>)))"


text \<open>A run of consecutive saves, one environment per call.\<close>

definition save_all :: "io list \<Rightarrow> manager \<Rightarrow> manager" where
  "save_all es m = fold (\<lambda>e m. snd (save_sessions e m)) es m"

section \<open>Configuration (\<open>src/core/config_manager.py\<close>)\<close>

text \<open>
  The configuration is what \<open>json.load\<close> returns: a JSON value, whose objects are
  dictionaries in file order. Floats are modelled by the rational they denote.
\<close>

datatype json =
    JNull
  | JBool bool
  | JInt int
  | JFloat rat
  | JStr string
  | JList "json list"
  | JDict "(string \<times> json) list"

text \<open>
  \<open>_merge_configs(target, source)\<close> walks \<open>source.items()\<close> in order and mutates
  \<open>target\<close>; the model returns the updated target. The recursive call mutates the
  dictionary stored at \<open>target[key]\<close>, which is the same as storing the merged
  dictionary back under \<open>key\<close>.
\<close>

fun merge_configs :: "(string \<times> json) list \<Rightarrow> (string \<times> json) list \<Rightarrow> (string \<times> json) list" where
  "merge_configs target [] = target"
| "merge_configs target ((key, JDict v) # source) =
     (case map_of target key of
        Some (JDict t) \<Rightarrow> merge_configs (AList.update key (JDict (merge_configs t v)) target) source
      | _ \<Rightarrow> merge_configs (AList.update key (JDict v) target) source)"
| "merge_configs target ((key, value) # source) =
     merge_configs (AList.update key value target) source"

text \<open>
  The configuration file as \<open>load\<close> meets it: absent, unreadable as JSON, or holding a
  JSON value. Any exception of the \<open>try\<close> block leaves the configuration as it is; a
  value that is not an object has no \<open>items()\<close> and raises before anything is changed.
\<close>

datatype config_file = Missing | Corrupt | Content json

fun load :: "config_file \<Rightarrow> (string \<times> json) list \<Rightarrow> (string \<times> json) list" where
  "load (Content (JDict loaded_config)) config = merge_configs config loaded_config"
| "load _ config = config"

section \<open>The \<open>ipaddress\<close> module of the Python library\<close>

text \<open>
  Networks and addresses are the library's objects: a version, the integer value of the
  (network) address and, for a network, the prefix length. \<open>num_addresses\<close>,
  \<open>hosts()\<close>, iteration and containment are arithmetic on these and are modelled as the
  library computes them (Python 3.10 and later, which \<open>setup.py\<close> requires).
\<close>

datatype address = IPv4Address int | IPv6Address int

datatype network = IPv4Network int nat | IPv6Network int nat

fun version :: "network \<Rightarrow> nat" where
  "version (IPv4Network _ _) = 4"
| "version (IPv6Network _ _) = 6"

fun max_prefixlen :: "network \<Rightarrow> nat" where
  "max_prefixlen (IPv4Network _ _) = 32"
| "max_prefixlen (IPv6Network _ _) = 128"

fun network_address :: "network \<Rightarrow> int" where
  "network_address (IPv4Network a _) = a"
| "network_address (IPv6Network a _) = a"

fun prefixlen :: "network \<Rightarrow> nat" where
  "prefixlen (IPv4Network _ p) = p"
| "prefixlen (IPv6Network _ p) = p"

fun address_class :: "network \<Rightarrow> int \<Rightarrow> address" where
  "address_class (IPv4Network _ _) = IPv4Address"
| "address_class (IPv6Network _ _) = IPv6Address"

definition num_addresses :: "network \<Rightarrow> int" where
  "num_addresses n = 2 ^ (max_prefixlen n - prefixlen n)"

definition network_iter :: "network \<Rightarrow> address list" where
  \<comment> \<open>\<open>for ip in network\<close>: every address from the network address to the broadcast address.\<close>
  "network_iter n =
     map (\<lambda>i. address_class n (network_address n + int i)) [0..<nat (num_addresses n)]"

definition hosts :: "network \<Rightarrow> address list" where
  \<comment> \<open>\<open>network.hosts()\<close>: without the network and broadcast addresses, except that a
      network of prefix length 31 yields both of its addresses and one of prefix length 32
      its single address.\<close>
  "hosts n =
     (if version n = 4 \<and> prefixlen n = 31 then network_iter n
      else if version n = 4 \<and> prefixlen n = 32 then [address_class n (network_address n)]
      else map (\<lambda>i. address_class n (network_address n + 1 + int i))
             [0..<nat (num_addresses n - 2)])"

text \<open>
  The textual side of the library: \<open>ip_network(s, strict=False)\<close> and \<open>ip_address(s)\<close>,
  with \<open>None\<close> where the library raises \<open>ValueError\<close>, and \<open>str\<close> of an address. The
  repository's functions take these as the parameter \<open>L\<close>, so that what is proved of them
  holds whatever the library accepts and prints.
\<close>

record ipaddress =
  ip_network :: "string \<Rightarrow> network option"
  ip_address :: "string \<Rightarrow> address option"
  str_address :: "address \<Rightarrow> string"

section \<open>Python floats\<close>

text \<open>
  A float is \<open>Float m e\<close>, the number \<open>m * 2 ^ e\<close>, with \<open>2 ^ 52 \<le> \<bar>m\<bar> < 2 ^ 53\<close>
  unless it is zero (\<open>Float 0 0\<close>). Every operation returns the float nearest to the
  exact result, ties to the even mantissa, as IEEE 754 double arithmetic does; exponent
  overflow and subnormal numbers are outside the model (the quotients below lie between
  \<open>2 ^ -128\<close> and \<open>100\<close>).
\<close>

datatype pyfloat = Float int int

fun ilog2 :: "nat \<Rightarrow> nat" where
  \<comment> \<open>The position of the highest set bit.\<close>
  "ilog2 n = (if n < 2 then 0 else Suc (ilog2 (n div 2)))"

declare ilog2.simps [simp del]

definition round_half_even :: "int \<Rightarrow> int \<Rightarrow> int" where
  \<comment> \<open>The integer nearest to \<open>p / q\<close> (for \<open>q > 0\<close>), ties to even.\<close>
  "round_half_even p q =
     (let d = p div q; r = p mod q
      in if 2 * r < q then d else if 2 * r > q then d + 1 else if even d then d else d + 1)"

definition nearest_float :: "int \<Rightarrow> int \<Rightarrow> pyfloat" where
  \<comment> \<open>The float nearest to \<open>p / q\<close>, for \<open>p \<ge> 0\<close> and \<open>q > 0\<close>.\<close>
  "nearest_float p q =
     (if p \<le> 0 then Float 0 0
      else
        let e0 = int (ilog2 (nat p)) - int (ilog2 (nat q)) - 52;
            e = (if p * 2 ^ nat (- e0) < q * 2 ^ nat e0 * 2 ^ 52 then e0 - 1 else e0);
            m = round_half_even (p * 2 ^ nat (- e)) (q * 2 ^ nat e)
        in if m = 2 ^ 53 then Float (2 ^ 52) (e + 1) else Float m e)"

definition scaled :: "pyfloat \<Rightarrow> int \<Rightarrow> int \<times> int" where
  \<comment> \<open>\<open>x * c\<close> as an exact fraction: numerator and positive denominator.\<close>
  "scaled x c = (case x of Float m e \<Rightarrow> (m * c * 2 ^ nat e, 2 ^ nat (- e)))"

definition int_true_div :: "int \<Rightarrow> int \<Rightarrow> pyfloat" where
  \<comment> \<open>\<open>a / b\<close> on integers: the correctly rounded quotient.\<close>
  "int_true_div a b = nearest_float a b"

definition float_mul_int :: "pyfloat \<Rightarrow> int \<Rightarrow> pyfloat" where
  \<comment> \<open>\<open>x * c\<close> for a float and a small integer, which converts to a float exactly.\<close>
  "float_mul_int x c = (case scaled x c of (p, q) \<Rightarrow> nearest_float p q)"

definition py_round :: "pyfloat \<Rightarrow> nat \<Rightarrow> pyfloat" where
  \<comment> \<open>\<open>round(x, ndigits)\<close>: the exact value of \<open>x\<close> is rounded to \<open>ndigits\<close> decimals,
      ties to even, and the decimal is converted to the nearest float.\<close>
  "py_round x ndigits =
     (case scaled x (10 ^ ndigits) of (p, q) \<Rightarrow> nearest_float (round_half_even p q) (10 ^ ndigits))"

definition float_val :: "pyfloat \<Rightarrow> rat" where
  "float_val x = (case x of Float m e \<Rightarrow> of_int m * 2 ^ nat e / 2 ^ nat (- e))"

section \<open>IP address management (\<open>src/core/ipam.py\<close>)\<close>

record ipam_entry =
  ip :: string
  subnet :: string
  hostname :: string
  entry_description :: string
  status :: string
  session_name :: string
  last_seen :: "rat option"

definition IPAMEntry :: "string \<Rightarrow> string \<Rightarrow> string \<Rightarrow> string \<Rightarrow> string \<Rightarrow> string \<Rightarrow> ipam_entry" where
  "IPAMEntry i sn hn d st sess =
     \<lparr>ip = i, subnet = sn, hostname = hn, entry_description = d, status = st,
      session_name = sess, last_seen = None\<rparr>"

record subnet =
  cidr :: string
  subnet_name :: string
  subnet_description :: string
  network :: network

definition Subnet :: "ipaddress \<Rightarrow> string \<Rightarrow> string \<Rightarrow> string \<Rightarrow> error + subnet" where
  \<comment> \<open>\<open>Subnet.__init__\<close>: \<open>ipaddress.ip_network(cidr, strict=False)\<close> raises
      \<open>ValueError\<close> on a string that is no network.\<close>
  "Subnet L c n d =
     (case ip_network L c of
        None \<Rightarrow> Inl (ValueError (c @ '' does not appear to be an IPv4 or IPv6 network''))
      | Some net \<Rightarrow> Inr \<lparr>cidr = c, subnet_name = n, subnet_description = d, network = net\<rparr>)"

definition get_ip_range :: "ipaddress \<Rightarrow> subnet \<Rightarrow> string list" where
  "get_ip_range L s =
     (if version (network s) = 4 then map (str_address L) (hosts (network s))
      else map (str_address L) (network_iter (network s)))"

record usage_stats =
  total :: int
  used :: int
  available :: int
  utilization :: pyfloat

definition get_usage_stats :: "ipaddress \<Rightarrow> subnet \<Rightarrow> (string \<times> ipam_entry) list \<Rightarrow> usage_stats" where
  \<comment> \<open>The integer \<open>0\<close> of the last branch and the float \<open>0.0\<close> are the same number.\<close>
  "get_usage_stats L s es =
     (let total0 = num_addresses (network s);
          total = (if version (network s) = 4 \<and> total0 > 2 then total0 - 2 else total0);
          used = int (length (filter (\<lambda>i. i \<in> fst ` set es) (get_ip_range L s)))
      in \<lparr>total = total, used = used, available = total - used,
          utilization = (if total > 0 then py_round (float_mul_int (int_true_div used total) 100) 2
                         else Float 0 0)\<rparr>)"

text \<open>
  The state of an \<open>IPAMManager\<close> with its two files. A file holds the list of dictionaries
  last written to it: the entries as they are, the subnets as \<open>(cidr, name, description)\<close>.
\<close>

record ipam =
  entries :: "(string \<times> ipam_entry) list"
  subnets :: "(string \<times> subnet) list"
  entries_file :: "ipam_entry list option"
  subnets_file :: "(string \<times> string \<times> string) list option"

record ipam_io =
  entries_write_ok :: bool
  subnets_write_ok :: bool

definition to_dict :: "subnet \<Rightarrow> string \<times> string \<times> string" where
  "to_dict s = (cidr s, subnet_name s, subnet_description s)"

definition save_data :: "ipam_io \<Rightarrow> ipam \<Rightarrow> ipam" where
  \<comment> \<open>Each of the two writes is in a \<open>try\<close> of its own; a failure is printed and dropped.\<close>
  "save_data e st =
     st\<lparr>entries_file := (if entries_write_ok e then Some (map snd (entries st)) else entries_file st),
        subnets_file := (if subnets_write_ok e then Some (map (to_dict \<circ> snd) (subnets st))
                         else subnets_file st)\<rparr>"

definition add_subnet :: "ipam_io \<Rightarrow> subnet \<Rightarrow> ipam \<Rightarrow> bool \<times> ipam" where
  "add_subnet e s st =
     (if cidr s \<in> fst ` set (subnets st) then (False, st)
      else (True, save_data e (st\<lparr>subnets := AList.update (cidr s) s (subnets st)\<rparr>)))"

definition remove_subnet :: "ipam_io \<Rightarrow> string \<Rightarrow> ipam \<Rightarrow> bool \<times> ipam" where
  "remove_subnet e c st =
     (if c \<notin> fst ` set (subnets st) then (False, st)
      else
        let entries_to_remove = map fst (filter (\<lambda>(i, entry). subnet entry = c) (entries st));
            es = fold AList.delete entries_to_remove (entries st)
        in (True, save_data e (st\<lparr>entries := es, subnets := AList.delete c (subnets st)\<rparr>)))"

definition add_ip_entry :: "ipam_io \<Rightarrow> ipam_entry \<Rightarrow> ipam \<Rightarrow> bool \<times> ipam" where
  "add_ip_entry e entry st =
     (True, save_data e (st\<lparr>entries := AList.update (ip entry) entry (entries st)\<rparr>))"

definition remove_ip_entry :: "ipam_io \<Rightarrow> string \<Rightarrow> ipam \<Rightarrow> bool \<times> ipam" where
  "remove_ip_entry e i st =
     (if i \<notin> fst ` set (entries st) then (False, st)
      else (True, save_data e (st\<lparr>entries := AList.delete i (entries st)\<rparr>)))"

definition get_entry :: "string \<Rightarrow> ipam \<Rightarrow> ipam_entry option" where
  "get_entry i st = map_of (entries st) i"

definition get_subnet :: "string \<Rightarrow> ipam \<Rightarrow> subnet option" where
  "get_subnet c st = map_of (subnets st) c"

definition netmask :: "network \<Rightarrow> int" where
  "netmask n = 2 ^ max_prefixlen n - 2 ^ (max_prefixlen n - prefixlen n)"

fun contains :: "network \<Rightarrow> address \<Rightarrow> bool" where
  \<comment> \<open>\<open>address in network\<close>: false across versions, else the masked address is the
      network address.\<close>
  "contains (IPv4Network b p) (IPv4Address a) = (and a (netmask (IPv4Network b p)) = b)"
| "contains (IPv6Network b p) (IPv6Address a) = (and a (netmask (IPv6Network b p)) = b)"
| "contains _ _ = False"

definition find_subnet_for_ip :: "ipaddress \<Rightarrow> string \<Rightarrow> ipam \<Rightarrow> subnet option" where
  \<comment> \<open>The \<open>ValueError\<close> of \<open>ipaddress.ip_address\<close> is caught and \<open>None\<close> returned.\<close>
  "find_subnet_for_ip L i st =
     (case ip_address L i of
        None \<Rightarrow> None
      | Some ip_obj \<Rightarrow> find (\<lambda>s. contains (network s) ip_obj) (map snd (subnets st)))"

text \<open>
  \<open>csv.DictReader\<close>. The first line of the file is the one header of the whole file
  (\<open>fieldnames\<close>); every later record that is not empty becomes a dictionary
  \<open>dict(zip(fieldnames, record))\<close>. A record longer than the header puts its remaining
  cells, as a list, under the key \<open>None\<close>; a record shorter than the header gives the
  remaining field names the value \<open>None\<close>. A key of a row is therefore a field name or
  \<open>None\<close>, and a cell is a text, \<open>None\<close>, or the list of surplus cells.
\<close>

datatype cell = Text string | NoCell | Rest "string list"

type_synonym row = "(string option \<times> cell) list"

definition dict_reader_row :: "string list \<Rightarrow> string list \<Rightarrow> row" where
  "dict_reader_row fieldnames line =
     (let d = fold (\<lambda>(k, v). AList.update (Some k) (Text v)) (zip fieldnames line) [];
          lf = length fieldnames;
          lr = length line
      in if lf < lr then AList.update None (Rest (drop lf line)) d
         else if lf > lr then fold (\<lambda>k. AList.update (Some k) NoCell) (drop lr fieldnames) d
         else d)"

definition dict_reader :: "string list \<Rightarrow> string list list \<Rightarrow> row list" where
  \<comment> \<open>Empty records (blank lines) are skipped.\<close>
  "dict_reader fieldnames lines = map (dict_reader_row fieldnames) (filter (\<lambda>l. l \<noteq> []) lines)"

text \<open>
  The file \<open>import_from_csv\<close> is given: either \<open>open\<close> or the reading of the header
  raises, with a message, or the file has a header line, the records the reader yields
  after it, and possibly a failure of the reader (a decoding error, say) once these
  records have been yielded. A file without any line is \<open>Csv [] [] None\<close>.
\<close>

datatype csv_file =
    Unreadable string
  | Csv (fieldnames: "string list") (records: "string list list") (reader_failure: "string option")

datatype import_result =
    ImportFailed string
  | Imported (added_ips: int) (added_subnets: int) (errors: int)

fun truthy :: "cell \<Rightarrow> bool" where
  \<comment> \<open>The truth value Python gives a cell.\<close>
  "truthy (Text s) = (s \<noteq> [])"
| "truthy NoCell = False"
| "truthy (Rest xs) = (xs \<noteq> [])"

definition has_cell :: "row \<Rightarrow> string \<Rightarrow> bool" where
  \<comment> \<open>\<open>key in row and row[key]\<close>\<close>
  "has_cell r k = (case map_of r (Some k) of None \<Rightarrow> False | Some c \<Rightarrow> truthy c)"

fun cell_text :: "cell \<Rightarrow> string" where
  \<comment> \<open>A cell as the value of a field of \<open>Subnet\<close> or \<open>IPAMEntry\<close>. Python stores \<open>None\<close>
      itself in the field when the cell is missing; the records here hold strings, and the
      empty string stands for it. No list reaches a field: a list is only found under the
      key \<open>None\<close>, which the code never reads.\<close>
  "cell_text (Text s) = s"
| "cell_text NoCell = []"
| "cell_text (Rest xs) = []"

definition row_get :: "row \<Rightarrow> string \<Rightarrow> string \<Rightarrow> string" where
  \<comment> \<open>\<open>row.get(key, default)\<close>; also \<open>row[key]\<close> when the key is present.\<close>
  "row_get r k d = (case map_of r (Some k) of None \<Rightarrow> d | Some c \<Rightarrow> cell_text c)"

text \<open>
  \<open>import_from_csv\<close>. The loop state is the manager and the three counters. The inner
  \<open>try\<close> counts an exception raised while a row is handled; the outer \<open>try\<close> encloses
  the whole loop, so a failure of the reader after some rows returns the failure result
  with these rows already imported and saved.
\<close>

definition import_row :: "ipaddress \<Rightarrow> ipam_io \<Rightarrow> row \<Rightarrow> ipam \<times> int \<times> int \<times> int \<Rightarrow> ipam \<times> int \<times> int \<times> int" where
  "import_row L e r acc =
     (case acc of (st, n_ips, n_subnets, n_errors) \<Rightarrow>
        if has_cell r ''cidr'' then
          (case Subnet L (row_get r ''cidr'' []) (row_get r ''name'' []) (row_get r ''description'' []) of
             Inl _ \<Rightarrow> (st, n_ips, n_subnets, n_errors + 1)
           | Inr s \<Rightarrow>
               (case add_subnet e s st of
                  (True, st') \<Rightarrow> (st', n_ips, n_subnets + 1, n_errors)
                | (False, st') \<Rightarrow> (st', n_ips, n_subnets, n_errors)))
        else if has_cell r ''ip'' then
          (let entry = IPAMEntry (row_get r ''ip'' []) (row_get r ''subnet'' [])
                         (row_get r ''hostname'' []) (row_get r ''description'' [])
                         (row_get r ''status'' ''Unknown'') (row_get r ''session_name'' [])
           in case add_ip_entry e entry st of
                (True, st') \<Rightarrow> (st', n_ips + 1, n_subnets, n_errors)
              | (False, st') \<Rightarrow> (st', n_ips, n_subnets, n_errors))
        else acc)"

definition import_from_csv :: "ipaddress \<Rightarrow> ipam_io \<Rightarrow> csv_file \<Rightarrow> ipam \<Rightarrow> import_result \<times> ipam" where
  "import_from_csv L e file st =
     (case file of
        Unreadable msg \<Rightarrow> (ImportFailed msg, st)
      | Csv header lines failure \<Rightarrow>
          (case fold (import_row L e) (dict_reader header lines) (st, 0, 0, 0) of
             (st', n_ips, n_subnets, n_errors) \<Rightarrow>
               (case failure of
                  Some msg \<Rightarrow> (ImportFailed msg, st')
                | None \<Rightarrow> (Imported n_ips n_subnets n_errors, st'))))"


section \<open>Concrete inputs\<close>

text \<open>
  An instance of the textual side of \<open>ipaddress\<close> for the examples: IPv4 in dotted-quad
  notation with an optional decimal prefix length. On these strings it parses and prints
  as the library does (octets without leading zeros, host bits masked off since
  \<open>strict=False\<close>); it knows no netmask notation, parses no IPv6, and prints an IPv6
  address in exploded form, without the library's zero compression.
\<close>

definition digit_char :: "int \<Rightarrow> char" where
  "digit_char d =
     (if d = 0 then CHR ''0'' else if d = 1 then CHR ''1'' else if d = 2 then CHR ''2''
      else if d = 3 then CHR ''3'' else if d = 4 then CHR ''4'' else if d = 5 then CHR ''5''
      else if d = 6 then CHR ''6'' else if d = 7 then CHR ''7'' else if d = 8 then CHR ''8''
      else if d = 9 then CHR ''9'' else if d = 10 then CHR ''a'' else if d = 11 then CHR ''b''
      else if d = 12 then CHR ''c'' else if d = 13 then CHR ''d'' else if d = 14 then CHR ''e''
      else CHR ''f'')"

definition str_octet :: "int \<Rightarrow> string" where
  \<comment> \<open>The decimal form of a number below 1000.\<close>
  "str_octet n =
     (if n < 10 then [digit_char n]
      else if n < 100 then [digit_char (n div 10), digit_char (n mod 10)]
      else [digit_char (n div 100), digit_char (n div 10 mod 10), digit_char (n mod 10)])"

definition str_ipv4 :: "int \<Rightarrow> string" where
  "str_ipv4 a =
     str_octet (a div 2 ^ 24 mod 256) @ ''.'' @ str_octet (a div 2 ^ 16 mod 256) @ ''.'' @
     str_octet (a div 2 ^ 8 mod 256) @ ''.'' @ str_octet (a mod 256)"

definition str_hextet :: "int \<Rightarrow> string" where
  "str_hextet n =
     [digit_char (n div 4096 mod 16), digit_char (n div 256 mod 16),
      digit_char (n div 16 mod 16), digit_char (n mod 16)]"

definition str_ipv6_exploded :: "int \<Rightarrow> string" where
  "str_ipv6_exploded a =
     str_hextet (a div 2 ^ 112 mod 65536) @ '':'' @ str_hextet (a div 2 ^ 96 mod 65536) @ '':'' @
     str_hextet (a div 2 ^ 80 mod 65536) @ '':'' @ str_hextet (a div 2 ^ 64 mod 65536) @ '':'' @
     str_hextet (a div 2 ^ 48 mod 65536) @ '':'' @ str_hextet (a div 2 ^ 32 mod 65536) @ '':'' @
     str_hextet (a div 2 ^ 16 mod 65536) @ '':'' @ str_hextet (a mod 65536)"

fun split_on :: "char \<Rightarrow> string \<Rightarrow> string list" where
  \<comment> \<open>\<open>s.split(c)\<close>\<close>
  "split_on c [] = [[]]"
| "split_on c (x # xs) =
     (if x = c then [] # split_on c xs
      else (case split_on c xs of w # ws \<Rightarrow> (x # w) # ws | [] \<Rightarrow> [[x]]))"

definition isdigit :: "char \<Rightarrow> bool" where
  "isdigit c = (48 \<le> (of_char c :: nat) \<and> (of_char c :: nat) \<le> 57)"

definition int_of_digits :: "string \<Rightarrow> int" where
  "int_of_digits s = foldl (\<lambda>acc c. 10 * acc + (int (of_char c) - 48)) 0 s"

definition parse_octet :: "string \<Rightarrow> int option" where
  "parse_octet s =
     (if s \<noteq> [] \<and> list_all isdigit s \<and> length s \<le> 3
         \<and> (if length s > 1 then hd s \<noteq> CHR ''0'' else True)
         \<and> int_of_digits s \<le> 255
      then Some (int_of_digits s) else None)"

definition parse_ipv4 :: "string \<Rightarrow> int option" where
  "parse_ipv4 s =
     (case map parse_octet (split_on CHR ''.'' s) of
        [Some a, Some b, Some c, Some d] \<Rightarrow> Some (((a * 256 + b) * 256 + c) * 256 + d)
      | _ \<Rightarrow> None)"

definition parse_prefix :: "string \<Rightarrow> nat option" where
  "parse_prefix s =
     (if s \<noteq> [] \<and> list_all isdigit s \<and> int_of_digits s \<le> 32 then Some (nat (int_of_digits s))
      else None)"

definition ipv4_network :: "string \<Rightarrow> network option" where
  "ipv4_network s =
     (case split_on CHR ''/'' s of
        [a] \<Rightarrow> map_option (\<lambda>v. IPv4Network v 32) (parse_ipv4 a)
      | [a, p] \<Rightarrow>
          (case (parse_ipv4 a, parse_prefix p) of
             (Some v, Some l) \<Rightarrow> Some (IPv4Network (v - v mod 2 ^ (32 - l)) l)
           | _ \<Rightarrow> None)
      | _ \<Rightarrow> None)"

definition ipv4_text :: ipaddress where
  "ipv4_text =
     \<lparr>ip_network = ipv4_network,
      ip_address = (\<lambda>s. map_option IPv4Address (parse_ipv4 s)),
      str_address = (\<lambda>a. case a of IPv4Address v \<Rightarrow> str_ipv4 v
                                  | IPv6Address v \<Rightarrow> str_ipv6_exploded v)\<rparr>"

text \<open>
  A second, much smaller instance for an IPv6 example: the addresses \<open>::1\<close> to \<open>::f\<close>,
  written with two colons and one hexadecimal digit of either case, and the one network
  \<open>::8/125\<close>. On these strings it parses as the library does, which reads hexadecimal
  digits case-insensitively, and it prints these addresses as the library does, in lower
  case.
\<close>

definition hex_digit :: "char \<Rightarrow> int option" where
  "hex_digit c =
     (let n = int (of_char c) in
      if 48 \<le> n \<and> n \<le> 57 then Some (n - 48)
      else if 97 \<le> n \<and> n \<le> 102 then Some (n - 87)
      else if 65 \<le> n \<and> n \<le> 70 then Some (n - 55)
      else None)"

definition parse_ipv6_low :: "string \<Rightarrow> address option" where
  "parse_ipv6_low s =
     (case s of
        [a, b, c] \<Rightarrow>
          (if a = CHR '':'' \<and> b = CHR '':'' then
             (case hex_digit c of
                Some v \<Rightarrow> if 0 < v then Some (IPv6Address v) else None
              | None \<Rightarrow> None)
           else None)
      | _ \<Rightarrow> None)"

definition ipv6_low_text :: ipaddress where
  "ipv6_low_text =
     \<lparr>ip_network = (\<lambda>s. if s = ''::8/125'' then Some (IPv6Network 8 125) else None),
      ip_address = parse_ipv6_low,
      str_address = (\<lambda>a. case a of IPv4Address v \<Rightarrow> str_ipv4 v
                                  | IPv6Address v \<Rightarrow> ''::'' @ [digit_char v])\<rparr>"

definition demo_io :: "nat \<Rightarrow> io" where
  \<comment> \<open>An environment in which nothing fails, at second \<open>t\<close>.\<close>
  "demo_io t = \<lparr>now = t * 1000000, copy_ok = True, undeletable = (\<lambda>_. False), write_ok = True\<rparr>"

definition demo_session :: session where
  "demo_session = Session ''web'' ''10.0.0.5'' ''root'' ''pw'' ''prod'' [''linux''] [] [] []"

definition ipam_ok :: ipam_io where
  "ipam_ok = \<lparr>entries_write_ok = True, subnets_write_ok = True\<rparr>"

definition empty_ipam :: ipam where
  "empty_ipam = \<lparr>entries = [], subnets = [], entries_file = None, subnets_file = None\<rparr>"

definition fresh_manager :: manager where
  \<comment> \<open>A first start: no session file, an empty backup directory, the default retention.\<close>
  "fresh_manager = init_manager None [] 5"

definition web_manager :: manager where
  "web_manager = snd (add_session (demo_io 1) demo_session fresh_manager)"

definition blank_session :: session where
  "blank_session = Session ''  '' ''10.0.0.6'' [] [] [] [] [] [] []"

definition four_saves :: "io list" where
  "four_saves = [demo_io 1, demo_io 2, demo_io 3, demo_io 4]"

definition locked_saves :: "io list" where
  \<comment> \<open>Three saves, at seconds 1, 2 and 3, during which the backup file of second 1 refuses
      deletion.\<close>
  "locked_saves = map (\<lambda>t. (demo_io t)\<lparr>undeletable := (\<lambda>f. f = 1)\<rparr>) [1, 2, 3]"

definition two_saves :: "io list" where
  "two_saves = [demo_io 1, demo_io 2]"

definition default_config :: "(string \<times> json) list" where
  \<comment> \<open>The defaults of \<open>ConfigManager.__init__\<close>.\<close>
  "default_config =
     [(''general'', JDict [(''putty_path'', JStr []), (''winscp_path'', JStr []),
                           (''default_protocol'', JStr ''ssh''), (''save_passwords'', JBool True)]),
      (''ui'', JDict [(''show_toolbar'', JBool True), (''show_statusbar'', JBool True),
                      (''font_size'', JInt 10), (''theme'', JStr ''system'')]),
      (''ipam'', JDict [(''enabled'', JBool True), (''subnet_mask'', JStr ''255.255.255.0'')])]"

definition stored_config :: "(string \<times> json) list" where
  "stored_config =
     [(''general'', JDict [(''putty_path'', JStr ''C:/putty.exe''), (''max_backups'', JInt 3)]),
      (''ipam'', JBool False),
      (''window'', JDict [(''width'', JInt 800)])]"

definition lan :: subnet where
  "lan = \<lparr>cidr = ''192.168.1.0/24'', subnet_name = ''lan'', subnet_description = [],
          network = IPv4Network 3232235776 24\<rparr>"

definition two_entries :: "(string \<times> ipam_entry) list" where
  "two_entries =
     [(''192.168.1.10'', IPAMEntry ''192.168.1.10'' ''192.168.1.0/24'' [] [] ''Unknown'' []),
      (''192.168.1.20'', IPAMEntry ''192.168.1.20'' ''192.168.1.0/24'' [] [] ''Unknown'' [])]"

definition office :: subnet where
  "office = \<lparr>cidr = ''10.0.0.0/24'', subnet_name = ''office'', subnet_description = [],
             network = IPv4Network 167772160 24\<rparr>"

definition office_ipam :: ipam where
  \<comment> \<open>One subnet and three entries: one linked to it, one inside its range but unlinked,
      one linked to another subnet.\<close>
  "office_ipam =
     \<lparr>entries =
        [(''10.0.0.5'', IPAMEntry ''10.0.0.5'' ''10.0.0.0/24'' ''printer'' [] ''Active'' []),
         (''10.0.0.9'', IPAMEntry ''10.0.0.9'' [] ''scanner'' [] ''Unknown'' []),
         (''10.0.1.7'', IPAMEntry ''10.0.1.7'' ''10.0.1.0/24'' [] [] ''Reserved'' [])],
      subnets = [(''10.0.0.0/24'', office)],
      entries_file = None, subnets_file = None\<rparr>"

definition low6 :: subnet where
  "low6 = \<lparr>cidr = ''::8/125'', subnet_name = ''low'', subnet_description = [],
           network = IPv6Network 8 125\<rparr>"

definition upper_case_entry :: "(string \<times> ipam_entry) list" where
  \<comment> \<open>The address \<open>::a\<close> registered as the user typed it, with a capital letter.\<close>
  "upper_case_entry = [(''::A'', IPAMEntry ''::A'' ''::8/125'' [] [] ''Unknown'' [])]"



definition exported_file :: csv_file where
  \<comment> \<open>What \<open>export_to_csv\<close> writes for one subnet and one entry: the subnet section with
      its header, a blank line, the entry section with a header of its own.\<close>
  "exported_file =
     Csv [''cidr'', ''name'', ''description'']
         [[''10.0.0.0/24'', ''office'', []],
          [],
          [''ip'', ''subnet'', ''hostname'', ''description'', ''status'', ''session_name'', ''last_seen''],
          [''10.0.0.5'', ''10.0.0.0/24'', ''printer'', [], ''Active'', [], []]]
         None"

definition broken_file :: csv_file where
  \<comment> \<open>A file whose first record is a subnet row and whose reading fails after it.\<close>
  "broken_file =
     Csv [''cidr'', ''name'', ''description''] [[''10.0.0.0/24'', ''office'', []]]
         (Some ''invalid continuation byte'')"

section \<open>Notions used in the statements\<close>

definition keyed_by_name :: "manager \<Rightarrow> bool" where
  "keyed_by_name m = list_all (\<lambda>(k, v). name v = k) (sessions m)"

text \<open>
  The states of a \<open>SessionManager\<close>: what \<open>__init__\<close> builds from any session file, backup
  directory and configuration, and what the four mutating operations make of a state,
  whether they succeed or raise.
\<close>

inductive reachable :: "manager \<Rightarrow> bool" where
  init: "reachable (init_manager file bdir k)"
| add: "reachable m \<Longrightarrow> reachable (snd (add_session e s m))"
| update: "reachable m \<Longrightarrow> reachable (snd (update_session e s m))"
| delete: "reachable m \<Longrightarrow> reachable (snd (delete_session e n m))"
| record_connection: "reachable m \<Longrightarrow> reachable (update_connection_stats t e n m)"

definition io_ok :: "io \<Rightarrow> bool" where
  \<comment> \<open>Nothing fails during the save: the copy, every deletion and the write succeed.\<close>
  "io_ok e = (copy_ok e \<and> write_ok e \<and> (\<forall>f. \<not> undeletable e f))"

definition lastk :: "nat \<Rightarrow> 'a list \<Rightarrow> 'a list" where
  "lastk k xs = drop (length xs - k) xs"

definition backup_files :: "manager \<Rightarrow> nat list" where
  \<comment> \<open>\<open>sorted(self.backup_dir.glob("sessions_backup_*.json"))\<close>\<close>
  "backup_files m = sort (map fst (backups m))"

fun merged_value :: "(string \<times> json) list \<Rightarrow> string \<Rightarrow> json \<Rightarrow> json" where
  \<comment> \<open>What one step of \<open>_merge_configs\<close> stores under \<open>key\<close>.\<close>
  "merged_value target key (JDict v) =
     (case map_of target key of Some (JDict t) \<Rightarrow> JDict (merge_configs t v) | _ \<Rightarrow> JDict v)"
| "merged_value target key value = value"

definition usable_addresses :: "network \<Rightarrow> address list" where
  \<comment> \<open>The addresses \<open>get_ip_range\<close> prints.\<close>
  "usable_addresses n = (if version n = 4 then hosts n else network_iter n)"







section \<open>Evaluation rules\<close>

lemma ilog2_numeral [simp]:
  "ilog2 0 = 0" "ilog2 1 = 0" "ilog2 (numeral Num.One) = 0"
  "ilog2 (numeral (Num.Bit0 k)) = Suc (ilog2 (numeral k))"
  "ilog2 (numeral (Num.Bit1 k)) = Suc (ilog2 (numeral k))"
proof -
  show "ilog2 0 = 0" "ilog2 1 = 0" "ilog2 (numeral Num.One) = 0"
    by (simp_all add: ilog2.simps)
  have "numeral (Num.Bit0 k) div 2 = (numeral k :: nat)" by simp
  moreover have "\<not> numeral (Num.Bit0 k) < (2::nat)" by simp
  ultimately show "ilog2 (numeral (Num.Bit0 k)) = Suc (ilog2 (numeral k))"
    by (subst ilog2.simps) (simp only: if_False)
  have "numeral (Num.Bit1 k) div 2 = (numeral k :: nat)" by simp
  moreover have "\<not> numeral (Num.Bit1 k) < (2::nat)" by simp
  ultimately show "ilog2 (numeral (Num.Bit1 k)) = Suc (ilog2 (numeral k))"
    by (subst ilog2.simps) (simp only: if_False)
qed

lemmas ipv4_eval = ipv4_text_def ipv4_network_def parse_ipv4_def parse_octet_def parse_prefix_def
  isdigit_def int_of_digits_def str_ipv4_def str_octet_def digit_char_def

lemmas float_eval = py_round_def float_mul_int_def scaled_def int_true_div_def nearest_float_def
  round_half_even_def

lemmas session_eval = fresh_manager_def web_manager_def init_manager_def load_sessions_def
  add_session_def update_session_def demo_session_def blank_session_def Session_def strip_def
  isspace_def save_sessions_def create_backup_def demo_io_def timestamp_def
  py_slice_to_neg_def unlink_def get_session_def

lemmas ipam_eval = empty_ipam_def ipam_ok_def row_get_def Subnet_def add_subnet_def
  add_ip_entry_def save_data_def IPAMEntry_def get_entry_def to_dict_def

section \<open>Sessions: adding, looking up, recording connections\<close>

lemma all_dropWhile: "(\<forall>x \<in> set (dropWhile P s). P x) \<longleftrightarrow> (\<forall>c \<in> set s. P c)"
  by (induction s) auto

lemma strip_empty_iff: "strip s = [] \<longleftrightarrow> (\<forall>c \<in> set s. isspace c)"
  by (simp add: strip_def dropWhile_eq_Nil_conv all_dropWhile)

lemma sessions_create_backup [simp]: "sessions (create_backup e m) = sessions m"
  by (simp add: create_backup_def Let_def split: option.splits)

lemma sessions_save_sessions [simp]: "sessions (snd (save_sessions e m)) = sessions m"
  by (simp add: save_sessions_def Let_def)

lemma max_backups_save [simp]: "max_backups (snd (save_sessions e m)) = max_backups m"
  by (simp add: save_sessions_def create_backup_def Let_def split: option.splits)

lemma session_file_save_sessions:
  "write_ok e \<Longrightarrow> session_file (snd (save_sessions e m)) = Some (map snd (sessions m))"
  by (simp add: save_sessions_def Let_def)

text \<open>
  Claim C1. For a session whose name is not empty and not made of whitespace only, and is
  not yet a key of the repository, \<open>add_session\<close> returns \<open>True\<close> and \<open>get_session\<close> on
  that name then returns the session itself. When the name is already a key,
  \<open>add_session\<close> raises \<open>ValueError\<close> (the validation error of the specification) and
  the manager, with every stored session and its files, is what it was.
\<close>

theorem add_session_get_session:
  "(name s \<noteq> [] \<and> (\<exists>c \<in> set (name s). \<not> isspace c) \<and> name s \<notin> fst ` set (sessions m) \<longrightarrow>
      fst (add_session e s m) = Inr True \<and>
      get_session (name s) (snd (add_session e s m)) = Some s) \<and>
   (name s \<in> fst ` set (sessions m) \<longrightarrow>
      (\<exists>msg. fst (add_session e s m) = Inl (ValueError msg)) \<and>
      snd (add_session e s m) = m \<and>
      get_session (name s) (snd (add_session e s m)) = get_session (name s) m)"
  by (auto simp: add_session_def get_session_def strip_empty_iff update_conv')

theorem add_session_get_session_witness:
  "name demo_session \<noteq> [] \<and> (\<exists>c \<in> set (name demo_session). \<not> isspace c) \<and>
   name demo_session \<notin> fst ` set (sessions fresh_manager) \<and>
   fst (add_session (demo_io 1) demo_session fresh_manager) = Inr True \<and>
   get_session ''web'' web_manager = Some demo_session \<and>
   name demo_session \<in> fst ` set (sessions web_manager) \<and>
   (\<exists>msg. fst (add_session (demo_io 2) demo_session web_manager) = Inl (ValueError msg)) \<and>
   snd (add_session (demo_io 2) demo_session web_manager) = web_manager"
  using add_session_get_session [of demo_session fresh_manager "demo_io 1"]
    add_session_get_session [of demo_session web_manager "demo_io 2"]
  by (simp add: session_eval)

text \<open>
  Claim C6. On a name of the repository, \<open>update_connection_stats\<close> sets the session's
  \<open>last_connection\<close> to the time read and adds one to its \<open>connection_count\<close>, leaves
  every other session alone and, when the write succeeds, leaves in the session file the
  sessions of the repository. Two calls in a row add two and leave the time of the second.
  On an absent name the manager and its files are unchanged, and nothing is raised (the
  function has no error result).
\<close>

theorem update_connection_stats_effect:
  "(get_session n m = Some s \<longrightarrow>
      get_session n (update_connection_stats t e n m) =
        Some (s\<lparr>last_connection := Some t, connection_count := connection_count s + 1\<rparr>) \<and>
      (\<forall>n'. n' \<noteq> n \<longrightarrow> get_session n' (update_connection_stats t e n m) = get_session n' m) \<and>
      (write_ok e \<longrightarrow> session_file (update_connection_stats t e n m) =
         Some (map snd (sessions (update_connection_stats t e n m)))) \<and>
      get_session n (update_connection_stats t2 e2 n (update_connection_stats t e n m)) =
        Some (s\<lparr>last_connection := Some t2, connection_count := connection_count s + 2\<rparr>)) \<and>
   (get_session n m = None \<longrightarrow> update_connection_stats t e n m = m)"
  by (auto simp: update_connection_stats_def get_session_def update_conv' Let_def
      session_file_save_sessions)

theorem update_connection_stats_effect_witness:
  "get_session ''web'' web_manager = Some demo_session \<and>
   get_session ''web'' (update_connection_stats 5000000 (demo_io 5) ''web'' web_manager) =
     Some (demo_session\<lparr>last_connection := Some 5000000, connection_count := 1\<rparr>) \<and>
   get_session ''web''
     (update_connection_stats 9000000 (demo_io 9) ''web''
        (update_connection_stats 5000000 (demo_io 5) ''web'' web_manager)) =
     Some (demo_session\<lparr>last_connection := Some 9000000, connection_count := 2\<rparr>) \<and>
   get_session ''nope'' web_manager = None \<and>
   update_connection_stats 5000000 (demo_io 5) ''nope'' web_manager = web_manager"
  using update_connection_stats_effect
      [of "''web''" web_manager demo_session 5000000 "demo_io 5" 9000000 "demo_io 9"]
    update_connection_stats_effect [of "''nope''" web_manager _ 5000000 "demo_io 5"]
  by (simp add: session_eval)

section \<open>Sessions: every session is stored under its own name\<close>

lemma set_update_subset: "set (AList.update k v al) \<subseteq> insert (k, v) (set al)"
  by (induction al) auto

lemma set_delete_subset: "set (AList.delete k al) \<subseteq> set al"
  by (induction al) auto

lemma keyed_fold_update:
  "\<forall>(k, v) \<in> set d. name v = k \<Longrightarrow>
   \<forall>(k, v) \<in> set (fold (\<lambda>s d. AList.update (name s) s d) data d). name v = k"
proof (induction data arbitrary: d)
  case Nil
  then show ?case by simp
next
  case (Cons s data)
  have "\<forall>(k, v) \<in> set (AList.update (name s) s d). name v = k"
    using Cons.prems set_update_subset [of "name s" s d] by auto
  then show ?case using Cons.IH by simp
qed

lemma keyed_init: "keyed_by_name (init_manager file bdir k)"
  using keyed_fold_update [of "[]"]
  by (auto simp: keyed_by_name_def list_all_iff init_manager_def load_sessions_def
      split: option.splits)

lemma keyed_add: "keyed_by_name m \<Longrightarrow> keyed_by_name (snd (add_session e s m))"
  using set_update_subset [of "name s" s "sessions m"]
  by (auto simp: keyed_by_name_def list_all_iff add_session_def)

lemma keyed_update: "keyed_by_name m \<Longrightarrow> keyed_by_name (snd (update_session e s m))"
  using set_update_subset [of "name s" s "sessions m"]
  by (auto simp: keyed_by_name_def list_all_iff update_session_def)

lemma keyed_delete: "keyed_by_name m \<Longrightarrow> keyed_by_name (snd (delete_session e n m))"
  using set_delete_subset [of n "sessions m"]
  by (auto simp: keyed_by_name_def list_all_iff delete_session_def)

lemma keyed_record:
  assumes "keyed_by_name m"
  shows "keyed_by_name (update_connection_stats t e n m)"
proof (cases "map_of (sessions m) n")
  case None
  then show ?thesis using assms by (simp add: update_connection_stats_def)
next
  case (Some s)
  then have "(n, s) \<in> set (sessions m)" by (rule map_of_SomeD)
  then have "name s = n" using assms by (auto simp: keyed_by_name_def list_all_iff)
  then show ?thesis
    using assms Some
      set_update_subset [of n "s\<lparr>last_connection := Some t, connection_count := connection_count s + 1\<rparr>" "sessions m"]
    by (auto simp: keyed_by_name_def list_all_iff update_connection_stats_def Let_def)
qed

lemma reachable_keyed: "reachable m \<Longrightarrow> keyed_by_name m"
  by (induction rule: reachable.induct)
     (simp_all add: keyed_init keyed_add keyed_update keyed_delete keyed_record)

text \<open>
  Claim C10. In every state of the repository reached from its initialisation by
  \<open>add_session\<close>, \<open>update_session\<close>, \<open>delete_session\<close> and
  \<open>update_connection_stats\<close>, the session that \<open>get_session\<close> returns for a name has that
  name.
\<close>

theorem reachable_get_session_name:
  "reachable m \<Longrightarrow> get_session n m = Some s \<Longrightarrow> name s = n"
  using reachable_keyed [of m] map_of_SomeD [of "sessions m" n s]
  by (auto simp: keyed_by_name_def list_all_iff get_session_def)

theorem reachable_get_session_name_witness:
  "reachable web_manager \<and> get_session ''web'' web_manager = Some demo_session \<and>
   name demo_session = ''web''"
proof -
  have r: "reachable web_manager"
    unfolding web_manager_def fresh_manager_def by (rule reachable.add [OF reachable.init])
  have g: "get_session ''web'' web_manager = Some demo_session"
    by (simp add: session_eval)
  show ?thesis using r g reachable_get_session_name [OF r g] by simp
qed

section \<open>Sessions: backup retention\<close>

lemma lastk_lastk_append: "lastk k (lastk k xs @ ys) = lastk k (xs @ ys)"
  by (cases "k \<le> length xs") (auto simp: lastk_def add.commute)

lemma lastk_append_long: "k \<le> length ys \<Longrightarrow> lastk k (xs @ ys) = lastk k ys"
  by (simp add: lastk_def)

lemma sort_snoc_greatest:
  fixes t :: nat
  assumes "\<forall>x \<in> set xs. x < t"
  shows "sort (xs @ [t]) = sort xs @ [t]"
proof (rule properties_for_sort)
  show "mset (sort xs @ [t]) = mset (xs @ [t])" by simp
  show "sorted (sort xs @ [t])" using assms by (auto simp: sorted_append less_imp_le)
qed

lemma filter_not_in_take:
  assumes "distinct xs"
  shows "filter (\<lambda>x. x \<notin> set (take n xs)) xs = drop n xs"
proof -
  have "distinct (take n xs @ drop n xs)" using assms by simp
  then have disj: "set (take n xs) \<inter> set (drop n xs) = {}" by (simp only: distinct_append)
  have "filter (\<lambda>x. x \<notin> set (take n xs)) (take n xs @ drop n xs)
        = filter (\<lambda>x. x \<notin> set (take n xs)) (drop n xs)"
    by (simp only: filter_append) (simp add: filter_empty_conv)
  also have "\<dots> = drop n xs" using disj by (auto simp: filter_id_conv)
  finally show ?thesis by simp
qed

lemma fold_delete_filter:
  "fold AList.delete ds es = filter (\<lambda>(k, v). k \<notin> set ds) es"
proof (induction ds arbitrary: es)
  case Nil
  then show ?case by simp
next
  case (Cons d ds)
  have "AList.delete d es = filter (\<lambda>(k, v). k \<noteq> d) es"
    by (induction es) auto
  then show ?case using Cons.IH [of "AList.delete d es"]
    by (auto intro: filter_cong)
qed

lemma keys_fold_delete:
  "map fst (fold AList.delete ds bs) = filter (\<lambda>x. x \<notin> set ds) (map fst bs)"
  by (simp add: fold_delete_filter filter_map comp_def case_prod_unfold)

lemma fold_unlink_ok:
  "\<forall>f. \<not> undeletable e f \<Longrightarrow> fold (unlink e) ds bs = fold AList.delete ds bs"
  by (induction ds arbitrary: bs) (simp_all add: unlink_def)

lemma backups_save_cases:
  assumes "session_file m = Some content" "io_ok e"
  shows "\<exists>ds. backups (snd (save_sessions e m))
           = fold AList.delete ds (AList.update (timestamp (now e)) content (backups m))"
proof -
  have undel: "\<forall>f. \<not> undeletable e f" using assms by (simp add: io_ok_def)
  let ?bs = "AList.update (timestamp (now e)) content (backups m)"
  show ?thesis
  proof (cases "int (length (sort (map fst ?bs))) > max_backups m")
    case True
    then have "backups (snd (save_sessions e m))
        = fold AList.delete (py_slice_to_neg (sort (map fst ?bs)) (max_backups m)) ?bs"
      using assms undel
      by (simp add: save_sessions_def create_backup_def io_ok_def Let_def fold_unlink_ok)
    then show ?thesis by blast
  next
    case False
    then have "backups (snd (save_sessions e m)) = fold AList.delete [] ?bs"
      using assms by (simp add: save_sessions_def create_backup_def io_ok_def Let_def)
    then show ?thesis by blast
  qed
qed

lemma backup_step:
  assumes hf: "session_file m = Some content"
    and ok: "io_ok e"
    and k: "max_backups m = int k" "0 < k"
    and dist: "distinct (map fst (backups m))"
    and newer: "\<forall>b \<in> set (map fst (backups m)). b < timestamp (now e)"
  shows "backup_files (snd (save_sessions e m)) = lastk k (backup_files m @ [timestamp (now e)])"
    and "distinct (map fst (backups (snd (save_sessions e m))))"
    and "session_file (snd (save_sessions e m)) \<noteq> None"
proof -
  let ?t = "timestamp (now e)"
  let ?bs = "AList.update ?t content (backups m)"
  let ?bf = "sort (map fst ?bs)"
  have notin: "?t \<notin> set (map fst (backups m))" using newer by auto
  have keys: "map fst ?bs = map fst (backups m) @ [?t]"
    using notin by (simp add: update_keys)
  have bf: "?bf = backup_files m @ [?t]"
    using newer by (simp add: keys backup_files_def sort_snoc_greatest)
  have dbs: "distinct (map fst ?bs)" using dist by (rule distinct_update)
  have dbf: "distinct ?bf" using dbs by simp
  have undel: "\<forall>f. \<not> undeletable e f" using ok by (simp add: io_ok_def)
  show "session_file (snd (save_sessions e m)) \<noteq> None"
    using ok by (simp add: save_sessions_def io_ok_def Let_def)
  show "backup_files (snd (save_sessions e m)) = lastk k (backup_files m @ [timestamp (now e)])"
  proof (cases "int (length ?bf) > int k")
    case True
    let ?del = "take (length ?bf - k) ?bf"
    have "backups (snd (save_sessions e m)) = fold AList.delete ?del ?bs"
      using True hf ok k undel
      by (simp add: save_sessions_def create_backup_def io_ok_def Let_def py_slice_to_neg_def
          fold_unlink_ok)
    then have "backup_files (snd (save_sessions e m))
        = sort (filter (\<lambda>x. x \<notin> set ?del) (map fst ?bs))"
      by (simp add: backup_files_def keys_fold_delete)
    also have "\<dots> = filter (\<lambda>x. x \<notin> set ?del) ?bf"
      by (simp only: filter_sort)
    also have "\<dots> = drop (length ?bf - k) ?bf"
      using dbf by (rule filter_not_in_take)
    finally show ?thesis by (simp only: bf lastk_def)
  next
    case False
    have "backups (snd (save_sessions e m)) = ?bs"
      using False hf ok k
      by (simp add: save_sessions_def create_backup_def io_ok_def Let_def)
    then have "backup_files (snd (save_sessions e m)) = ?bf"
      by (simp add: backup_files_def)
    moreover have "length ?bf - k = 0" using False by simp
    ultimately show ?thesis by (simp add: bf lastk_def)
  qed
  show "distinct (map fst (backups (snd (save_sessions e m))))"
  proof -
    obtain ds where "backups (snd (save_sessions e m)) = fold AList.delete ds ?bs"
      using backups_save_cases [OF hf ok] by blast
    then show ?thesis using dbs by (simp add: keys_fold_delete)
  qed
qed

lemma backups_older_step:
  assumes "session_file m = Some content" "io_ok e"
  shows "fst ` set (backups (snd (save_sessions e m)))
           \<subseteq> insert (timestamp (now e)) (fst ` set (backups m))"
proof -
  let ?bs = "AList.update (timestamp (now e)) content (backups m)"
  obtain ds where ds: "backups (snd (save_sessions e m)) = fold AList.delete ds ?bs"
    using backups_save_cases [OF assms] by blast
  have "set (map fst (fold AList.delete ds ?bs)) \<subseteq> set (map fst ?bs)"
    by (simp only: keys_fold_delete) auto
  moreover have "set (map fst ?bs) \<subseteq> insert (timestamp (now e)) (set (map fst (backups m)))"
    by (auto simp: update_keys)
  ultimately show ?thesis using ds by auto
qed

lemma backup_run:
  assumes "session_file m \<noteq> None"
    and "\<forall>x \<in> set (e # es). io_ok x"
    and "max_backups m = int k" "0 < k"
    and "distinct (map fst (backups m))"
    and "sorted_wrt (<) (map (\<lambda>e. timestamp (now e)) (e # es))"
    and "\<forall>b \<in> fst ` set (backups m). \<forall>x \<in> set (e # es). b < timestamp (now x)"
  shows "backup_files (save_all (e # es) m)
           = lastk k (backup_files m @ map (\<lambda>e. timestamp (now e)) (e # es))"
  using assms
proof (induction es arbitrary: e m)
  case Nil
  then obtain content where c: "session_file m = Some content" by auto
  show ?case
    using backup_step(1) [OF c, of e k] Nil by (simp add: save_all_def)
next
  case (Cons e' es)
  then obtain content where c: "session_file m = Some content" by auto
  let ?m1 = "snd (save_sessions e m)"
  have ok: "io_ok e" using Cons.prems(2) by simp
  have newer: "\<forall>b \<in> set (map fst (backups m)). b < timestamp (now e)"
    using Cons.prems(7) by simp
  note st = backup_step [OF c ok Cons.prems(3) Cons.prems(4) Cons.prems(5) newer]
  have older: "\<forall>b \<in> fst ` set (backups ?m1). \<forall>x \<in> set (e' # es). b < timestamp (now x)"
  proof (intro ballI)
    fix b x assume b: "b \<in> fst ` set (backups ?m1)" and x: "x \<in> set (e' # es)"
    from b backups_older_step [OF c ok]
    have "b = timestamp (now e) \<or> b \<in> fst ` set (backups m)" by auto
    then show "b < timestamp (now x)"
    proof
      assume "b = timestamp (now e)"
      then show ?thesis using Cons.prems(6) x by auto
    next
      assume "b \<in> fst ` set (backups m)"
      then show ?thesis using Cons.prems(7) x by auto
    qed
  qed
  have IH: "backup_files (save_all (e' # es) ?m1)
      = lastk k (backup_files ?m1 @ map (\<lambda>e. timestamp (now e)) (e' # es))"
  proof (rule Cons.IH)
    show "session_file ?m1 \<noteq> None" by (rule st(3))
    show "\<forall>x \<in> set (e' # es). io_ok x" using Cons.prems(2) by simp
    show "max_backups ?m1 = int k" using Cons.prems(3) by simp
    show "0 < k" by (rule Cons.prems(4))
    show "distinct (map fst (backups ?m1))" by (rule st(2))
    show "sorted_wrt (<) (map (\<lambda>e. timestamp (now e)) (e' # es))" using Cons.prems(6) by simp
    show "\<forall>b \<in> fst ` set (backups ?m1). \<forall>x \<in> set (e' # es). b < timestamp (now x)"
      by (rule older)
  qed
  have "save_all (e # e' # es) m = save_all (e' # es) ?m1" by (simp add: save_all_def)
  then show ?case
    using IH st(1) lastk_lastk_append [of k "backup_files m @ [timestamp (now e)]"
        "map (\<lambda>e. timestamp (now e)) (e' # es)"]
    by simp
qed

text \<open>
  Claim C2, as the code has it. Take a retention count \<open>k\<close> of at least one (the
  preferences dialog offers 1 to 50) and \<open>N > k\<close> saves in which nothing fails, at strictly
  increasing seconds, all later than the backups already in the directory. After the last
  save exactly \<open>k\<close> backup files remain, and they are those of the last \<open>k\<close> saves. (The
  first save of a repository that has no session file yet makes no backup; the count is
  reached all the same, since \<open>k < N\<close>.)
\<close>

theorem backup_retention:
  assumes ok: "\<forall>e \<in> set es. io_ok e"
    and k: "max_backups m = int k" "0 < k" "k < length es"
    and dist: "distinct (map fst (backups m))"
    and incr: "sorted_wrt (<) (map (\<lambda>e. timestamp (now e)) es)"
    and older: "\<forall>b \<in> fst ` set (backups m). \<forall>e \<in> set es. b < timestamp (now e)"
  shows "length (backups (save_all es m)) = k \<and>
         fst ` set (backups (save_all es m))
           = set (drop (length es - k) (map (\<lambda>e. timestamp (now e)) es))"
proof -
  let ?ts = "map (\<lambda>e. timestamp (now e)) es"
  obtain e es' where es: "es = e # es'" using k(3) by (cases es) auto
  have bf: "backup_files (save_all es m) = drop (length es - k) ?ts"
  proof (cases "session_file m")
    case (Some content)
    have "backup_files (save_all (e # es') m)
        = lastk k (backup_files m @ map (\<lambda>e. timestamp (now e)) (e # es'))"
      using Some ok k dist incr older unfolding es by (intro backup_run) auto
    also have "\<dots> = lastk k (map (\<lambda>e. timestamp (now e)) (e # es'))"
      using k(3) es by (intro lastk_append_long) simp
    finally show ?thesis by (simp add: es lastk_def)
  next
    case None
    let ?m1 = "snd (save_sessions e m)"
    obtain e2 es2 where es': "es' = e2 # es2" using k(2,3) es by (cases es') auto
    have m1: "?m1 = m\<lparr>session_file := Some (map snd (sessions m))\<rparr>"
      using None ok es by (simp add: save_sessions_def create_backup_def io_ok_def)
    have "backup_files (save_all (e2 # es2) ?m1)
        = lastk k (backup_files ?m1 @ map (\<lambda>e. timestamp (now e)) (e2 # es2))"
      using ok k dist incr older unfolding es es' m1 by (intro backup_run) auto
    also have "\<dots> = lastk k (map (\<lambda>e. timestamp (now e)) (e2 # es2))"
      using k(3) es es' by (intro lastk_append_long) simp
    finally have "backup_files (save_all es m) = lastk k (map (\<lambda>e. timestamp (now e)) es')"
      by (simp add: es es' save_all_def)
    then show ?thesis using k(3) by (simp add: es lastk_def Suc_diff_le)
  qed
  have "length (backups (save_all es m)) = length (backup_files (save_all es m))"
    by (simp add: backup_files_def)
  moreover have "fst ` set (backups (save_all es m)) = set (backup_files (save_all es m))"
    by (simp add: backup_files_def)
  ultimately show ?thesis using k(3) by (simp add: bf)
qed

text \<open>
  Four saves after a first start with \<open>max_backups = 2\<close>: the first makes no backup, the
  next two make the backups of seconds 2 and 3, the fourth makes the backup of second 4
  and deletes the one of second 2.
\<close>

lemma four_saves_run:
  "save_all four_saves (init_manager None [] 2)
     = \<lparr>sessions = [], session_file = Some [], backups = [(3, []), (4, [])], max_backups = 2\<rparr>"
  by (simp add: four_saves_def save_all_def session_eval)

lemma three_of_four_saves_run:
  "backups (save_all (butlast four_saves) (init_manager None [] 2)) = [(2, []), (3, [])]"
  by (simp add: four_saves_def save_all_def session_eval)

theorem backup_retention_witness:
  "list_all io_ok four_saves \<and> max_backups (init_manager None [] 2) = int 2 \<and>
   (2::nat) < length four_saves \<and>
   distinct (map fst (backups (init_manager None [] 2))) \<and>
   sorted_wrt (<) (map (\<lambda>e. timestamp (now e)) four_saves) \<and>
   backups (save_all (butlast four_saves) (init_manager None [] 2)) = [(2, []), (3, [])] \<and>
   length (backups (save_all four_saves (init_manager None [] 2))) = 2 \<and>
   fst ` set (backups (save_all four_saves (init_manager None [] 2))) = {3, 4}"
proof -
  have h: "\<forall>e \<in> set four_saves. io_ok e" "max_backups (init_manager None [] 2) = int 2"
    "(0::nat) < 2" "(2::nat) < length four_saves"
    "distinct (map fst (backups (init_manager None [] 2)))"
    "sorted_wrt (<) (map (\<lambda>e. timestamp (now e)) four_saves)"
    "\<forall>b \<in> fst ` set (backups (init_manager None [] 2)). \<forall>e \<in> set four_saves. b < timestamp (now e)"
    by (simp_all add: four_saves_def io_ok_def session_eval)
  have "drop (length four_saves - 2) (map (\<lambda>e. timestamp (now e)) four_saves) = [3, 4]"
    by (simp add: four_saves_def session_eval)
  then show ?thesis
    using h backup_retention [OF h] three_of_four_saves_run
    by (simp add: list_all_iff insert_commute)
qed

text \<open>
  The claim as stated covers every sequence of saves, those in which a deletion fails
  included. \<open>_create_backup\<close> catches the \<open>PermissionError\<close> of \<open>unlink\<close> and goes on, so a
  backup that cannot be deleted stays: with \<open>max_backups = 1\<close>, an existing session file
  and three saves during which the backup of second 1 is locked, two backups remain, and
  they are not the most recent two either.
\<close>

theorem backup_retention_locked_counterexample:
  "max_backups (init_manager (Some []) [] 1) = 1 \<and>
   1 < length locked_saves \<and>
   map (timestamp \<circ> now) locked_saves = [1, 2, 3] \<and>
   backups (save_all locked_saves (init_manager (Some []) [] 1)) = [(1, []), (3, [])] \<and>
   length (backups (save_all locked_saves (init_manager (Some []) [] 1))) \<noteq> 1"
  by (simp add: locked_saves_def save_all_def session_eval)

text \<open>
  A retention count of zero is not among those the theorem covers. The preferences dialog
  does not offer it, but the configuration file can hold it, and then the guard
  \<open>len(backup_files) > max_backups\<close> is passed while the slice \<open>backup_files[:-0]\<close> of
  the files to delete is empty: after a first start and two saves one backup is there.
\<close>

lemma backup_retention_zero:
  "backups (save_all two_saves (init_manager None [] 0)) = [(2, [])]"
  by (simp add: two_saves_def save_all_def session_eval)

section \<open>Configuration: the merge on load\<close>

lemma merge_configs_step:
  "merge_configs target ((key, val) # source)
     = merge_configs (AList.update key (merged_value target key val) target) source"
  by (cases val) (auto split: option.splits json.splits)

lemma merge_configs_lookup:
  "distinct (map fst source) \<Longrightarrow>
   map_of (merge_configs target source) k =
     (case map_of source k of
        None \<Rightarrow> map_of target k
      | Some val \<Rightarrow> Some (merged_value target k val))"
proof (induction source arbitrary: target)
  case Nil
  then show ?case by simp
next
  case (Cons p source)
  obtain key val where p: "p = (key, val)" by (cases p)
  have d: "distinct (map fst source)" and notin: "key \<notin> fst ` set source"
    using Cons.prems p by auto
  have none: "map_of source key = None" using notin by (simp add: map_of_eq_None_iff)
  let ?t = "AList.update key (merged_value target key val) target"
  have ih: "map_of (merge_configs ?t source) k =
     (case map_of source k of None \<Rightarrow> map_of ?t k | Some w \<Rightarrow> Some (merged_value ?t k w))"
    by (rule Cons.IH [OF d])
  have other: "merged_value ?t k w = merged_value target k w" if "k \<noteq> key" for w
    using that by (cases w) (simp_all add: update_conv')
  show ?case
  proof (cases "k = key")
    case True
    then show ?thesis using ih none p by (simp add: merge_configs_step update_conv')
  next
    case False
    then show ?thesis using ih p other
      by (simp add: merge_configs_step update_conv' split: option.splits)
  qed
qed

text \<open>
  Claim C7. \<open>load\<close> of a file holding a JSON object overlays it on the configuration in
  memory, key by key: a key of the file whose value and default are both objects gets
  their recursive merge; any other key of the file gets the stored value, whether it
  replaces a default or is new; a key absent from the file keeps its default. (The keys of
  a JSON object read by \<open>json.load\<close> are distinct.)
\<close>

theorem load_merges_recursively:
  assumes "distinct (map fst stored)"
  shows "map_of (load (Content (JDict stored)) defaults) k =
     (case (map_of defaults k, map_of stored k) of
        (d, None) \<Rightarrow> d
      | (Some (JDict t), Some (JDict v)) \<Rightarrow> Some (JDict (merge_configs t v))
      | (_, Some v) \<Rightarrow> Some v)"
proof -
  have "merged_value defaults k v
      = (case (map_of defaults k, v) of
           (Some (JDict t), JDict w) \<Rightarrow> JDict (merge_configs t w) | _ \<Rightarrow> v)" for v
    by (cases v) (auto split: option.splits json.splits)
  then show ?thesis
    using merge_configs_lookup [OF assms, of defaults k]
    by (auto split: option.splits json.splits)
qed

theorem load_merges_recursively_witness:
  "distinct (map fst stored_config) \<and>
   map_of (load (Content (JDict stored_config)) default_config) ''general'' =
     Some (JDict [(''putty_path'', JStr ''C:/putty.exe''), (''winscp_path'', JStr []),
                  (''default_protocol'', JStr ''ssh''), (''save_passwords'', JBool True),
                  (''max_backups'', JInt 3)]) \<and>
   map_of (load (Content (JDict stored_config)) default_config) ''ui'' =
     map_of default_config ''ui'' \<and>
   map_of (load (Content (JDict stored_config)) default_config) ''ipam'' = Some (JBool False) \<and>
   map_of (load (Content (JDict stored_config)) default_config) ''window'' =
     Some (JDict [(''width'', JInt 800)])"
proof -
  have d: "distinct (map fst stored_config)" by (simp add: stored_config_def)
  show ?thesis
    using d load_merges_recursively [OF d, of default_config "''general''"]
      load_merges_recursively [OF d, of default_config "''ui''"]
      load_merges_recursively [OF d, of default_config "''ipam''"]
      load_merges_recursively [OF d, of default_config "''window''"]
    by (simp add: stored_config_def default_config_def)
qed

section \<open>IPAM: usage statistics\<close>

lemma inj_address_class: "inj (address_class n)"
  by (cases n) (auto simp: inj_on_def)

lemma distinct_network_iter: "distinct (network_iter n)"
  by (auto simp: network_iter_def distinct_map inj_on_def dest!: injD [OF inj_address_class])

lemma distinct_hosts: "distinct (hosts n)"
  using distinct_network_iter [of n]
  by (auto simp: hosts_def distinct_map inj_on_def dest!: injD [OF inj_address_class])

lemma distinct_usable: "distinct (usable_addresses n)"
  by (simp add: usable_addresses_def distinct_network_iter distinct_hosts)

lemma get_ip_range_usable: "get_ip_range L s = map (str_address L) (usable_addresses (network s))"
  by (simp add: get_ip_range_def usable_addresses_def)

lemma length_filter_card:
  assumes "distinct xs"
  shows "length (filter P (map f xs)) = card {a \<in> set xs. P (f a)}"
proof -
  have "length (filter P (map f xs)) = length (filter (P \<circ> f) xs)"
    by (simp add: filter_map)
  also have "\<dots> = card (set (filter (P \<circ> f) xs))"
    using assms by (simp only: distinct_card [OF distinct_filter])
  finally show ?thesis by simp
qed

lemma lan_parsed: "Subnet ipv4_text ''192.168.1.0/24'' ''lan'' [] = Inr lan"
  by (simp add: Subnet_def lan_def ipv4_eval)

lemma lan_empty:
  "get_usage_stats ipv4_text lan [] =
     \<lparr>total = 254, used = 0, available = 254, utilization = Float 0 0\<rparr>"
  by (simp add: get_usage_stats_def lan_def num_addresses_def Let_def float_eval)

lemma lan_range_two:
  "filter (\<lambda>i. i \<in> fst ` set two_entries) (get_ip_range ipv4_text lan)
     = [''192.168.1.10'', ''192.168.1.20'']"
  by (simp add: get_ip_range_def lan_def hosts_def num_addresses_def upt_conv_Cons ipv4_eval
      two_entries_def)

lemma lan_two:
  "get_usage_stats ipv4_text lan two_entries =
     \<lparr>total = 254, used = 2, available = 252, utilization = nearest_float 79 100\<rparr>"
  by (simp add: get_usage_stats_def lan_range_two)
     (simp add: lan_def num_addresses_def Let_def float_eval)

text \<open>
  Claim C3, as the code has it. \<open>get_usage_stats\<close> returns as \<open>total\<close> the number of
  addresses of the network, less two for an IPv4 network of more than two addresses; as
  \<open>used\<close> the number of usable addresses of the subnet whose text, as \<open>str\<close> prints the
  address, is the key of a registered entry; as \<open>available\<close> their difference; and as
  \<open>utilization\<close> the float \<open>round((used / total) * 100, 2)\<close>, or zero when \<open>total\<close> is
  not positive. For \<open>192.168.1.0/24\<close> without entries this is 254, 0, 254 and 0.0; with
  entries for two addresses of the range it is 254, 2, 252 and the float written \<open>0.79\<close>,
  which is \<open>7115687411245384 / 2 ^ 53\<close>.
\<close>

theorem get_usage_stats_spec:
  "total (get_usage_stats L s es) =
     (if version (network s) = 4 \<and> num_addresses (network s) > 2
      then num_addresses (network s) - 2 else num_addresses (network s)) \<and>
   used (get_usage_stats L s es) =
     int (card {a \<in> set (usable_addresses (network s)). str_address L a \<in> fst ` set es}) \<and>
   available (get_usage_stats L s es)
     = total (get_usage_stats L s es) - used (get_usage_stats L s es) \<and>
   utilization (get_usage_stats L s es) =
     (if total (get_usage_stats L s es) > 0
      then py_round (float_mul_int (int_true_div (used (get_usage_stats L s es))
                                                 (total (get_usage_stats L s es))) 100) 2
      else Float 0 0) \<and>
   Subnet ipv4_text ''192.168.1.0/24'' ''lan'' [] = Inr lan \<and>
   get_usage_stats ipv4_text lan [] =
     \<lparr>total = 254, used = 0, available = 254, utilization = Float 0 0\<rparr> \<and>
   get_usage_stats ipv4_text lan two_entries =
     \<lparr>total = 254, used = 2, available = 252, utilization = nearest_float 79 100\<rparr> \<and>
   float_val (nearest_float 79 100) = 7115687411245384 / 2 ^ 53"
proof -
  have u: "used (get_usage_stats L s es) =
     int (card {a \<in> set (usable_addresses (network s)). str_address L a \<in> fst ` set es})"
    using length_filter_card [OF distinct_usable, of "\<lambda>i. i \<in> fst ` set es" "str_address L" "network s"]
    by (simp add: get_usage_stats_def Let_def get_ip_range_usable)
  have f: "float_val (nearest_float 79 100) = 7115687411245384 / 2 ^ 53"
    by (simp add: float_val_def nearest_float_def round_half_even_def Let_def)
  have t: "total (get_usage_stats L s es) =
     (if version (network s) = 4 \<and> num_addresses (network s) > 2
      then num_addresses (network s) - 2 else num_addresses (network s))"
    by (simp add: get_usage_stats_def Let_def)
  have a: "available (get_usage_stats L s es)
      = total (get_usage_stats L s es) - used (get_usage_stats L s es)"
    by (simp add: get_usage_stats_def Let_def)
  have z: "utilization (get_usage_stats L s es) =
     (if total (get_usage_stats L s es) > 0
      then py_round (float_mul_int (int_true_div (used (get_usage_stats L s es))
                                                 (total (get_usage_stats L s es))) 100) 2
      else Float 0 0)"
    by (simp add: get_usage_stats_def Let_def)
  show ?thesis
    by (intro conjI; (rule t u a z lan_parsed lan_empty lan_two f))
qed

text \<open>
  The claim as stated counts the registered entries whose address lies in the usable
  range. The code looks an address up by the text \<open>str\<close> prints for it, and an entry is
  registered under the text it was given: the address \<open>::a\<close> registered as \<open>::A\<close>, which
  the library reads as the same address, lies in the range of \<open>::8/125\<close> and is not
  counted.
\<close>

theorem other_spelling_not_counted_counterexample:
  "Subnet ipv6_low_text ''::8/125'' ''low'' [] = Inr low6 \<and>
   ip_address ipv6_low_text ''::A'' = Some (IPv6Address 10) \<and>
   IPv6Address 10 \<in> set (usable_addresses (network low6)) \<and>
   map fst upper_case_entry = [''::A''] \<and>
   used (get_usage_stats ipv6_low_text low6 upper_case_entry) = 0"
  by (simp add: Subnet_def low6_def upper_case_entry_def ipv6_low_text_def parse_ipv6_low_def
      hex_digit_def usable_addresses_def network_iter_def num_addresses_def get_usage_stats_def
      get_ip_range_def digit_char_def upt_conv_Cons Let_def)

section \<open>IPAM: removing a subnet\<close>

lemma subnets_save_data [simp]: "subnets (save_data e st) = subnets st"
  by (simp add: save_data_def)

lemma entries_save_data [simp]: "entries (save_data e st) = entries st"
  by (simp add: save_data_def)

lemma cascade_filter:
  assumes "distinct (map fst es)"
  shows "fold AList.delete (map fst (filter P es)) es = filter (\<lambda>x. \<not> P x) es"
proof -
  have "(fst x \<in> fst ` set (filter P es)) = P x" if "x \<in> set es" for x
  proof
    assume "fst x \<in> fst ` set (filter P es)"
    then obtain y where y: "y \<in> set es" "P y" "fst y = fst x" by auto
    have "inj_on fst (set es)" using assms by (simp add: distinct_map)
    then have "y = x" using y that by (auto dest: inj_onD)
    then show "P x" using y by simp
  next
    assume "P x"
    then show "fst x \<in> fst ` set (filter P es)" using that by auto
  qed
  then have "filter (\<lambda>(k, v). k \<notin> set (map fst (filter P es))) es = filter (\<lambda>x. \<not> P x) es"
    by (intro filter_cong refl) (simp add: case_prod_unfold del: set_filter)
  then show ?thesis by (simp only: fold_delete_filter)
qed

text \<open>
  Claim C4. \<open>remove_subnet\<close> on a CIDR that is not registered returns \<open>False\<close> and
  changes nothing. On a registered one it returns \<open>True\<close>; the entries left are the
  entries whose \<open>subnet\<close> field differs from the CIDR as a string, in their order, so an
  entry with another or an empty \<open>subnet\<close> field stays whatever its address; the subnet is
  removed; and each of the two files whose write succeeds holds the new data.
  (The entries are a dictionary: their keys are distinct.)
\<close>

theorem remove_subnet_cascade:
  assumes "distinct (map fst (entries st))"
  shows "(c \<notin> fst ` set (subnets st) \<longrightarrow> remove_subnet e c st = (False, st)) \<and>
         (c \<in> fst ` set (subnets st) \<longrightarrow>
            fst (remove_subnet e c st) = True \<and>
            entries (snd (remove_subnet e c st))
              = filter (\<lambda>(i, entry). subnet entry \<noteq> c) (entries st) \<and>
            subnets (snd (remove_subnet e c st)) = AList.delete c (subnets st) \<and>
            get_subnet c (snd (remove_subnet e c st)) = None \<and>
            (entries_write_ok e \<longrightarrow> entries_file (snd (remove_subnet e c st))
               = Some (map snd (entries (snd (remove_subnet e c st))))) \<and>
            (subnets_write_ok e \<longrightarrow> subnets_file (snd (remove_subnet e c st))
               = Some (map (to_dict \<circ> snd) (subnets (snd (remove_subnet e c st))))))"
proof -
  have "fold AList.delete (map fst (filter (\<lambda>(i, entry). subnet entry = c) (entries st))) (entries st)
      = filter (\<lambda>(i, entry). subnet entry \<noteq> c) (entries st)"
    using cascade_filter [OF assms, of "\<lambda>(i, entry). subnet entry = c"]
    by (simp add: case_prod_unfold)
  then show ?thesis
    by (simp add: remove_subnet_def save_data_def get_subnet_def Let_def delete_conv')
qed

theorem remove_subnet_cascade_witness:
  "distinct (map fst (entries office_ipam)) \<and>
   ''10.0.0.0/24'' \<in> fst ` set (subnets office_ipam) \<and>
   fst (remove_subnet ipam_ok ''10.0.0.0/24'' office_ipam) = True \<and>
   map fst (entries (snd (remove_subnet ipam_ok ''10.0.0.0/24'' office_ipam)))
     = [''10.0.0.9'', ''10.0.1.7''] \<and>
   subnets (snd (remove_subnet ipam_ok ''10.0.0.0/24'' office_ipam)) = [] \<and>
   entries_file (snd (remove_subnet ipam_ok ''10.0.0.0/24'' office_ipam))
     = Some (map snd (entries (snd (remove_subnet ipam_ok ''10.0.0.0/24'' office_ipam)))) \<and>
   ''172.16.0.0/12'' \<notin> fst ` set (subnets office_ipam) \<and>
   remove_subnet ipam_ok ''172.16.0.0/12'' office_ipam = (False, office_ipam)"
proof -
  have d: "distinct (map fst (entries office_ipam))"
    by (simp add: office_ipam_def)
  show ?thesis
    using d remove_subnet_cascade [OF d, of "''10.0.0.0/24''" ipam_ok]
      remove_subnet_cascade [OF d, of "''172.16.0.0/12''" ipam_ok]
    by (simp add: office_ipam_def ipam_ok_def IPAMEntry_def)
qed

section \<open>IPAM: CSV import\<close>


lemma subnets_add_ip_entry [simp]: "subnets (snd (add_ip_entry e x st)) = subnets st"
  by (simp add: add_ip_entry_def)














text \<open>
  A reader failure after the first record: the failure result, and the subnet of that
  record registered and saved.
\<close>

lemma import_broken_file:
  "import_from_csv ipv4_text ipam_ok broken_file empty_ipam =
     (ImportFailed ''invalid continuation byte'',
      \<lparr>entries = [], subnets = [(''10.0.0.0/24'', office)],
       entries_file = Some [], subnets_file = Some [(''10.0.0.0/24'', ''office'', [])]\<rparr>)"
  by (simp add: import_from_csv_def import_row_def broken_file_def dict_reader_def
      dict_reader_row_def has_cell_def office_def save_data_def to_dict_def ipam_eval ipv4_eval)

text \<open>
  A file in the layout \<open>export_to_csv\<close> writes has two sections with a header each, and
  \<open>csv.DictReader\<close> reads the whole of it under the first. The header of the second
  section is then a row whose \<open>cidr\<close> is the text \<open>ip\<close>, and an entry is a row whose
  \<open>cidr\<close> is its address: the import of one subnet and one entry written by the export
  registers two subnets and no entry.
\<close>

lemma import_exported_file:
  "fst (import_from_csv ipv4_text ipam_ok exported_file empty_ipam) = Imported 0 2 1"
  "map fst (subnets (snd (import_from_csv ipv4_text ipam_ok exported_file empty_ipam)))
     = [''10.0.0.0/24'', ''10.0.0.5'']"
  by (simp_all add: import_from_csv_def import_row_def exported_file_def dict_reader_def
      dict_reader_row_def has_cell_def save_data_def ipam_eval ipv4_eval)


section \<open>Validation failures\<close>

text \<open>
  Claim C8, as the code has it. An empty or all-whitespace session name makes
  \<open>add_session\<close> and \<open>update_session\<close> raise \<open>ValueError\<close>, and so does a duplicate name
  in \<open>add_session\<close>; a string that is no network makes the \<open>Subnet\<close> constructor raise
  \<open>ValueError\<close>, before \<open>add_subnet\<close> can be called. A string that is no address makes
  \<open>find_subnet_for_ip\<close> return \<open>None\<close>, the library's \<open>ValueError\<close> being caught; and
  \<open>add_ip_entry\<close> checks nothing: it stores any entry under its \<open>ip\<close> and returns
  \<open>True\<close>.
\<close>

theorem validation_failures:
  "(strip (name s) = [] \<longrightarrow>
      (\<exists>msg. add_session e s m = (Inl (ValueError msg), m)) \<and>
      (\<exists>msg. update_session e s m = (Inl (ValueError msg), m))) \<and>
   (name s \<in> fst ` set (sessions m) \<longrightarrow>
      (\<exists>msg. add_session e s m = (Inl (ValueError msg), m))) \<and>
   (ip_network L c = None \<longrightarrow> (\<exists>msg. Subnet L c n d = Inl (ValueError msg))) \<and>
   (ip_address L i = None \<longrightarrow> find_subnet_for_ip L i st = None) \<and>
   fst (add_ip_entry ie entry st) = True \<and>
   get_entry (ip entry) (snd (add_ip_entry ie entry st)) = Some entry"
  by (auto simp: add_session_def update_session_def Subnet_def find_subnet_for_ip_def
      add_ip_entry_def get_entry_def update_conv')

theorem validation_failures_witness:
  "strip (name blank_session) = [] \<and>
   (\<exists>msg. add_session (demo_io 1) blank_session fresh_manager = (Inl (ValueError msg), fresh_manager)) \<and>
   (\<exists>msg. update_session (demo_io 1) blank_session fresh_manager
            = (Inl (ValueError msg), fresh_manager)) \<and>
   name demo_session \<in> fst ` set (sessions web_manager) \<and>
   (\<exists>msg. add_session (demo_io 2) demo_session web_manager = (Inl (ValueError msg), web_manager)) \<and>
   ip_network ipv4_text ''10.0.0.0/33'' = None \<and>
   (\<exists>msg. Subnet ipv4_text ''10.0.0.0/33'' ''broken'' [] = Inl (ValueError msg)) \<and>
   ip_address ipv4_text ''not-an-ip'' = None \<and>
   find_subnet_for_ip ipv4_text ''not-an-ip'' office_ipam = None"
proof -
  have h: "strip (name blank_session) = []" "name demo_session \<in> fst ` set (sessions web_manager)"
    "ip_network ipv4_text ''10.0.0.0/33'' = None" "ip_address ipv4_text ''not-an-ip'' = None"
    by (simp_all add: session_eval ipv4_eval)
  show ?thesis
    using h validation_failures [of blank_session "demo_io 1" fresh_manager ipv4_text
        "''10.0.0.0/33''" "''broken''" "[]" "''not-an-ip''" office_ipam]
      validation_failures [of demo_session "demo_io 2" web_manager ipv4_text
        "''10.0.0.0/33''" "''broken''" "[]" "''not-an-ip''" office_ipam]
    by simp
qed

text \<open>
  The claim as stated has a malformed IP given to \<open>add_entry\<close> or to
  \<open>find_subnet_for_ip\<close> surface as a validation error. Neither does: the entry is stored
  and \<open>True\<close> returned, and the lookup returns \<open>None\<close>.
\<close>

theorem malformed_ip_accepted_counterexample:
  "ip_address ipv4_text ''not-an-ip'' = None \<and>
   fst (add_ip_entry ipam_ok (IPAMEntry ''not-an-ip'' [] [] [] ''Unknown'' []) empty_ipam) = True \<and>
   get_entry ''not-an-ip''
     (snd (add_ip_entry ipam_ok (IPAMEntry ''not-an-ip'' [] [] [] ''Unknown'' []) empty_ipam))
     = Some (IPAMEntry ''not-an-ip'' [] [] [] ''Unknown'' []) \<and>
   find_subnet_for_ip ipv4_text ''not-an-ip'' empty_ipam = None"
  by (simp add: find_subnet_for_ip_def ipam_eval ipv4_eval)

end
